theory Spec2Isabelle
  imports Main
begin

section \<open>The generated model class JobShardingConfig\<close>

text \<open>
  A shallow embedding of \<^verbatim>\<open>clients/python/bacalhau_apiclient/models/job_sharding_config.py\<close>,
  the swagger-generated model class \<^verbatim>\<open>JobShardingConfig\<close>: its constructor, the three
  properties with their setters, \<^verbatim>\<open>to_dict\<close>, \<^verbatim>\<open>to_str\<close>, \<^verbatim>\<open>__repr__\<close>,
  \<^verbatim>\<open>__eq__\<close> and \<^verbatim>\<open>__ne__\<close>. A method \<^verbatim>\<open>__x__\<close> is the constant \<open>dunder_x\<close>, and
  the setter of a property \<^verbatim>\<open>x\<close> is \<open>x_setter\<close>.
\<close>

subsection \<open>Python values\<close>

text \<open>
  The setters check nothing, so a field can hold any Python value. The values of the model
  are the ones \<^verbatim>\<open>to_dict\<close> tells apart: \<^verbatim>\<open>None\<close>, integers, strings, lists, dicts
  (keyed by strings, as an association list in insertion order; where a key occurs twice the
  first entry is the dict's) and objects that have a \<^verbatim>\<open>to_dict\<close> method, which here are
  the instances of the class itself. Floats and instances of other classes are outside the
  model. An instance is the tuple of the five attributes \<^verbatim>\<open>__init__\<close> assigns; the
  selector \<open>f_x\<close> reads the private attribute \<^verbatim>\<open>_x\<close>. The class \<^verbatim>\<open>Configuration\<close> is
  imported from another module: its instances are the type parameter \<open>'c\<close>.
\<close>

datatype 'c pyval =
    PNone
  | PInt int
  | PStr string
  | PList "'c pyval list"
  | PDict "(string \<times> 'c pyval) list"
  | PObj "'c JobShardingConfig"
and 'c JobShardingConfig =
  JobShardingConfig
    (f_configuration: 'c)
    (f_batch_size: "'c pyval")
    (f_glob_pattern: "'c pyval")
    (f_glob_pattern_base_path: "'c pyval")
    (discriminator: "'c pyval")

subsection \<open>Class attributes\<close>

text \<open>
  The keys of \<^verbatim>\<open>swagger_types\<close> and \<^verbatim>\<open>attribute_map\<close> are the names of the three
  properties. They are an enumeration here, so that \<^verbatim>\<open>getattr(self, attr)\<close> is defined for
  exactly the names the class has a property for; \<open>attr_name\<close> is the name as the string
  the source writes.
\<close>

datatype attr = Batch_size | Glob_pattern | Glob_pattern_base_path

fun attr_name :: "attr \<Rightarrow> string" where
  "attr_name Batch_size = ''batch_size''"
| "attr_name Glob_pattern = ''glob_pattern''"
| "attr_name Glob_pattern_base_path = ''glob_pattern_base_path''"

definition swagger_types :: "(attr \<times> string) list" where
  "swagger_types =
     [(Batch_size, ''int''),
      (Glob_pattern, ''str''),
      (Glob_pattern_base_path, ''str'')]"

definition attribute_map :: "(attr \<times> string) list" where
  "attribute_map =
     [(Batch_size, ''BatchSize''),
      (Glob_pattern, ''GlobPattern''),
      (Glob_pattern_base_path, ''GlobPatternBasePath'')]"

subsection \<open>Properties and their setters\<close>

definition batch_size :: "'c JobShardingConfig \<Rightarrow> 'c pyval" where
  "batch_size self = f_batch_size self"

definition batch_size_setter :: "'c JobShardingConfig \<Rightarrow> 'c pyval \<Rightarrow> 'c JobShardingConfig" where
  "batch_size_setter self batch_size' =
     (case self of JobShardingConfig c b g p d \<Rightarrow> JobShardingConfig c batch_size' g p d)"

definition glob_pattern :: "'c JobShardingConfig \<Rightarrow> 'c pyval" where
  "glob_pattern self = f_glob_pattern self"

definition glob_pattern_setter :: "'c JobShardingConfig \<Rightarrow> 'c pyval \<Rightarrow> 'c JobShardingConfig" where
  "glob_pattern_setter self glob_pattern' =
     (case self of JobShardingConfig c b g p d \<Rightarrow> JobShardingConfig c b glob_pattern' p d)"

definition glob_pattern_base_path :: "'c JobShardingConfig \<Rightarrow> 'c pyval" where
  "glob_pattern_base_path self = f_glob_pattern_base_path self"

definition glob_pattern_base_path_setter ::
  "'c JobShardingConfig \<Rightarrow> 'c pyval \<Rightarrow> 'c JobShardingConfig" where
  "glob_pattern_base_path_setter self glob_pattern_base_path' =
     (case self of JobShardingConfig c b g p d \<Rightarrow>
        JobShardingConfig c b g glob_pattern_base_path' d)"

fun getattr :: "'c JobShardingConfig \<Rightarrow> attr \<Rightarrow> 'c pyval" where
  "getattr self Batch_size = batch_size self"
| "getattr self Glob_pattern = glob_pattern self"
| "getattr self Glob_pattern_base_path = glob_pattern_base_path self"

subsection \<open>The constructor\<close>

text \<open>
  \<open>dunder_init\<close> is the body of \<^verbatim>\<open>__init__\<close> on the values its four parameters are bound
  to; the first argument is the object \<^verbatim>\<open>Configuration()\<close> returns. The assignments
  \<^verbatim>\<open>self.batch_size = batch_size\<close> go through the property setters.
\<close>

definition dunder_init ::
  "'c \<Rightarrow> 'c pyval \<Rightarrow> 'c pyval \<Rightarrow> 'c pyval \<Rightarrow> 'c option \<Rightarrow> 'c JobShardingConfig" where
  "dunder_init Configuration batch_size' glob_pattern' glob_pattern_base_path' configuration' =
     (let configuration = (case configuration' of None \<Rightarrow> Configuration | Some c \<Rightarrow> c);
          self = JobShardingConfig configuration PNone PNone PNone PNone;
          self = (if batch_size' \<noteq> PNone then batch_size_setter self batch_size' else self);
          self = (if glob_pattern' \<noteq> PNone then glob_pattern_setter self glob_pattern' else self);
          self = (if glob_pattern_base_path' \<noteq> PNone
                  then glob_pattern_base_path_setter self glob_pattern_base_path' else self)
      in self)"

text \<open>
  A call \<^verbatim>\<open>JobShardingConfig(...)\<close> passes each keyword argument or leaves it out; a
  parameter left out (\<open>None\<close> below) is bound to the default of the signature, which is
  \<^verbatim>\<open>None\<close> for all four.
\<close>

fun argument :: "'a \<Rightarrow> 'a option \<Rightarrow> 'a" where
  "argument dflt None = dflt"
| "argument dflt (Some v) = v"

definition construct ::
  "'c \<Rightarrow> 'c pyval option \<Rightarrow> 'c pyval option \<Rightarrow> 'c pyval option \<Rightarrow> 'c option option
     \<Rightarrow> 'c JobShardingConfig" where
  "construct Configuration batch_size' glob_pattern' glob_pattern_base_path' configuration' =
     dunder_init Configuration
       (argument PNone batch_size')
       (argument PNone glob_pattern')
       (argument PNone glob_pattern_base_path')
       (argument None configuration')"

subsection \<open>to_dict\<close>

text \<open>
  \<^verbatim>\<open>result[attr] = v\<close> on a dict in insertion order: an existing key keeps its place.
\<close>

fun setitem :: "(string \<times> 'v) list \<Rightarrow> string \<Rightarrow> 'v \<Rightarrow> (string \<times> 'v) list" where
  "setitem [] key v = [(key, v)]"
| "setitem ((k, w) # entries) key v =
     (if k = key then (k, v) # entries else (k, w) # setitem entries key v)"

lemma size_getattr: "size (getattr self a) < size self"
  by (cases self; cases a)
     (simp_all add: batch_size_def glob_pattern_def glob_pattern_base_path_def)

lemma size_element: "x \<in> set xs \<Longrightarrow> size x < size (PList xs)"
  by (induction xs) auto

lemma size_entry: "item \<in> set entries \<Longrightarrow> size (snd item) < size (PDict entries)"
  by (induction entries) auto

text \<open>
  The loop of \<^verbatim>\<open>to_dict\<close> over \<^verbatim>\<open>swagger_types\<close>, with its four branches in the
  source's order: a list (each element that has \<^verbatim>\<open>to_dict\<close> replaced by its dict), a
  value that has \<^verbatim>\<open>to_dict\<close>, a dict (each value that has \<^verbatim>\<open>to_dict\<close> replaced),
  anything else. The constructors of \<open>pyval\<close> are disjoint, so the \<^verbatim>\<open>if/elif\<close> chain is
  a case distinction. The final block under \<^verbatim>\<open>issubclass(JobShardingConfig, dict)\<close> never
  runs, since the class derives from \<^verbatim>\<open>object\<close>.
\<close>

function to_dict :: "'c JobShardingConfig \<Rightarrow> (string \<times> 'c pyval) list" where
  "to_dict self =
     fold (\<lambda>(attr, _) result.
        let value = getattr self attr in
        (case value of
           PList xs \<Rightarrow>
             setitem result (attr_name attr)
               (PList (map (\<lambda>x. case x of PObj obj \<Rightarrow> PDict (to_dict obj) | _ \<Rightarrow> x) xs))
         | PObj obj \<Rightarrow> setitem result (attr_name attr) (PDict (to_dict obj))
         | PDict entries \<Rightarrow>
             setitem result (attr_name attr)
               (PDict (map (\<lambda>item. case snd item of
                                       PObj obj \<Rightarrow> (fst item, PDict (to_dict obj))
                                     | _ \<Rightarrow> item) entries))
         | _ \<Rightarrow> setitem result (attr_name attr) value))
       swagger_types []"
  by pat_completeness auto
termination
proof (relation "measure size", goal_cases)
  case 1
  show ?case by simp
next
  case (2 self x attr ty result v xs el obj)
  have "size obj < size (PObj obj)" by simp
  also have "size (PObj obj) < size (PList xs)" using 2 size_element[of el xs] by simp
  also have "size (PList xs) < size self" using 2 size_getattr[of self attr] by simp
  finally show ?case by simp
next
  case (3 self x attr ty result v entries item obj)
  have "size obj < size (PObj obj)" by simp
  also have "size (PObj obj) < size (PDict entries)" using 3 size_entry[of item entries] by simp
  also have "size (PDict entries) < size self" using 3 size_getattr[of self attr] by simp
  finally show ?case by simp
next
  case (4 self x attr ty result v obj)
  have "size obj < size (PObj obj)" by simp
  also have "size (PObj obj) < size self" using 4 size_getattr[of self attr] by simp
  finally show ?case by simp
qed

declare to_dict.simps [simp del]

text \<open>
  The three conversions the branches of \<^verbatim>\<open>to_dict\<close> apply, by name: to an element of a
  list, to an item of a dict, and to the value of a field.
\<close>

definition element_to_dict :: "'c pyval \<Rightarrow> 'c pyval" where
  "element_to_dict x = (case x of PObj obj \<Rightarrow> PDict (to_dict obj) | _ \<Rightarrow> x)"

definition item_to_dict :: "string \<times> 'c pyval \<Rightarrow> string \<times> 'c pyval" where
  "item_to_dict item =
     (case snd item of PObj obj \<Rightarrow> (fst item, PDict (to_dict obj)) | _ \<Rightarrow> item)"

definition value_to_dict :: "'c pyval \<Rightarrow> 'c pyval" where
  "value_to_dict v =
     (case v of
        PList xs \<Rightarrow> PList (map element_to_dict xs)
      | PObj obj \<Rightarrow> PDict (to_dict obj)
      | PDict entries \<Rightarrow> PDict (map item_to_dict entries)
      | _ \<Rightarrow> v)"

lemma to_dict_loop:
  "to_dict self =
     fold (\<lambda>(attr, _) result.
        setitem result (attr_name attr) (value_to_dict (getattr self attr))) swagger_types []"
proof -
  have "(case value of
           PList xs \<Rightarrow>
             setitem result key
               (PList (map (\<lambda>x. case x of PObj obj \<Rightarrow> PDict (to_dict obj) | _ \<Rightarrow> x) xs))
         | PObj obj \<Rightarrow> setitem result key (PDict (to_dict obj))
         | PDict entries \<Rightarrow>
             setitem result key
               (PDict (map (\<lambda>item. case snd item of
                                       PObj obj \<Rightarrow> (fst item, PDict (to_dict obj))
                                     | _ \<Rightarrow> item) entries))
         | _ \<Rightarrow> setitem result key value) = setitem result key (value_to_dict value)"
    for "value" :: "'a pyval" and result key
    unfolding value_to_dict_def element_to_dict_def item_to_dict_def
    by (cases "value") simp_all
  then show ?thesis
    by (subst to_dict.simps) (simp add: Let_def)
qed

lemma to_dict_fields:
  "to_dict self =
     [(''batch_size'', value_to_dict (batch_size self)),
      (''glob_pattern'', value_to_dict (glob_pattern self)),
      (''glob_pattern_base_path'', value_to_dict (glob_pattern_base_path self))]"
  by (simp add: to_dict_loop swagger_types_def)

lemma snd_item_to_dict: "snd (item_to_dict item) = element_to_dict (snd item)"
  by (cases item) (simp add: item_to_dict_def element_to_dict_def split: pyval.split)

lemma fst_item_to_dict: "fst (item_to_dict item) = fst item"
  by (cases item) (simp add: item_to_dict_def split: pyval.split)

subsection \<open>Equality of values, __eq__ and __ne__\<close>

text \<open>
  \<open>weight\<close> counts the constructors of a value, an instance for two: replacing a nested
  instance by its dict does not make a value heavier, which is why comparing instances by
  their dicts comes to an end.
\<close>

fun weight :: "'c pyval \<Rightarrow> nat" and weight_obj :: "'c JobShardingConfig \<Rightarrow> nat" where
  "weight PNone = 0"
| "weight (PInt i) = 0"
| "weight (PStr s) = 0"
| "weight (PList xs) = Suc (sum_list (map weight xs))"
| "weight (PDict entries) = Suc (sum_list (map (\<lambda>item. weight (snd item)) entries))"
| "weight (PObj obj) = Suc (weight_obj obj)"
| "weight_obj (JobShardingConfig c b g p d) = Suc (weight b + weight g + weight p)"

lemma weight_to_dict:
  fixes v :: "'c pyval" and obj :: "'c JobShardingConfig"
  shows "weight (value_to_dict v) \<le> weight v \<and> weight (element_to_dict v) \<le> weight v"
    and "weight (PDict (to_dict obj)) \<le> weight_obj obj"
proof (induction v and obj rule: weight_weight_obj.induct)
  case (4 xs)
  have "sum_list (map weight (map element_to_dict xs)) \<le> sum_list (map weight xs)"
    unfolding map_map comp_def using 4 by (intro sum_list_mono) simp
  then show ?case by (simp add: value_to_dict_def element_to_dict_def)
next
  case (5 entries)
  have "\<And>item. item \<in> set entries \<Longrightarrow> weight (snd (item_to_dict item)) \<le> weight (snd item)"
    using 5 by (simp add: snd_item_to_dict)
  then have "sum_list (map (\<lambda>item. weight (snd item)) (map item_to_dict entries))
      \<le> sum_list (map (\<lambda>item. weight (snd item)) entries)"
    unfolding map_map comp_def by (intro sum_list_mono) simp
  then show ?case by (simp add: value_to_dict_def element_to_dict_def)
next
  case (6 obj)
  then show ?case by (simp add: value_to_dict_def element_to_dict_def)
next
  case (7 c b g p d)
  then show ?case
    by (simp add: to_dict_fields batch_size_def glob_pattern_def glob_pattern_base_path_def)
qed (simp_all add: value_to_dict_def element_to_dict_def)

lemma weight_element: "x \<in> set xs \<Longrightarrow> weight x < weight (PList xs)"
  by (induction xs) auto

lemma weight_lookup: "map_of entries k = Some v \<Longrightarrow> weight v < weight (PDict entries)"
  by (induction entries) (auto split: if_splits)

text \<open>
  \<open>py_eq\<close> is Python's \<^verbatim>\<open>==\<close> on the values of the model: \<^verbatim>\<open>None\<close>, integers and
  strings by value, lists element by element, dicts as mappings (the same keys, with equal
  values, in any order), and an instance on the left through its \<^verbatim>\<open>__eq__\<close>. A value
  of another type compared with an instance is unequal to it (the reflected \<^verbatim>\<open>__eq__\<close>
  answers \<^verbatim>\<open>False\<close>), which the first five cases say. \<open>dunder_eq\<close> is \<^verbatim>\<open>__eq__\<close>:
  \<^verbatim>\<open>isinstance(other, JobShardingConfig)\<close> holds of the values \<open>PObj obj\<close>.
\<close>

function py_eq :: "'c pyval \<Rightarrow> 'c pyval \<Rightarrow> bool"
  and dunder_eq :: "'c JobShardingConfig \<Rightarrow> 'c pyval \<Rightarrow> bool" where
  "py_eq x y =
     (case x of
        PNone \<Rightarrow> (case y of PNone \<Rightarrow> True | _ \<Rightarrow> False)
      | PInt i \<Rightarrow> (case y of PInt j \<Rightarrow> i = j | _ \<Rightarrow> False)
      | PStr s \<Rightarrow> (case y of PStr t \<Rightarrow> s = t | _ \<Rightarrow> False)
      | PList xs \<Rightarrow> (case y of PList ys \<Rightarrow> list_all2 py_eq xs ys | _ \<Rightarrow> False)
      | PDict d \<Rightarrow>
          (case y of
             PDict e \<Rightarrow>
               (\<forall>k \<in> set (map fst d) \<union> set (map fst e).
                  case map_of d k of
                    None \<Rightarrow> False
                  | Some v \<Rightarrow> (case map_of e k of None \<Rightarrow> False | Some w \<Rightarrow> py_eq v w))
           | _ \<Rightarrow> False)
      | PObj self \<Rightarrow> dunder_eq self y)"
| "dunder_eq self other =
     (case other of
        PObj obj \<Rightarrow> py_eq (PDict (to_dict self)) (PDict (to_dict obj))
      | _ \<Rightarrow> False)"
  by pat_completeness auto
termination
proof (relation "measure (\<lambda>a. case a of Inl (x, y) \<Rightarrow> 2 * weight x + 1
                                  | Inr (self, other) \<Rightarrow> 2 * weight (PObj self))", goal_cases)
  case 1
  show ?case by simp
next
  case (2 x y xs ys z yb)
  then show ?case using weight_element[of z xs] by simp
next
  case (3 x y d e k v w)
  then show ?case using weight_lookup[of d k v] by simp
next
  case (4 x y self)
  then show ?case by simp
next
  case (5 self other obj)
  then show ?case using weight_to_dict(2)[of self] by simp
qed

declare py_eq.simps [simp del] dunder_eq.simps [simp del]

text \<open>Python's \<^verbatim>\<open>!=\<close> on dicts is the negation of \<^verbatim>\<open>==\<close>.\<close>

definition py_ne :: "'c pyval \<Rightarrow> 'c pyval \<Rightarrow> bool" where
  "py_ne x y = (\<not> py_eq x y)"

definition dunder_ne :: "'c JobShardingConfig \<Rightarrow> 'c pyval \<Rightarrow> bool" where
  "dunder_ne self other =
     (case other of
        PObj obj \<Rightarrow> py_ne (PDict (to_dict self)) (PDict (to_dict obj))
      | _ \<Rightarrow> True)"

definition isinstance_JobShardingConfig :: "'c pyval \<Rightarrow> bool" where
  "isinstance_JobShardingConfig other = (case other of PObj obj \<Rightarrow> True | _ \<Rightarrow> False)"

subsection \<open>to_str and __repr__\<close>

text \<open>
  \<^verbatim>\<open>pprint.pformat\<close> is a function of the standard library: \<open>to_str\<close> takes it as a
  parameter, a function from values to strings.
\<close>

definition to_str :: "('c pyval \<Rightarrow> string) \<Rightarrow> 'c JobShardingConfig \<Rightarrow> string" where
  "to_str pformat self = pformat (PDict (to_dict self))"

definition dunder_repr :: "('c pyval \<Rightarrow> string) \<Rightarrow> 'c JobShardingConfig \<Rightarrow> string" where
  "dunder_repr pformat self = to_str pformat self"

subsection \<open>Names for parts of the definitions\<close>

text \<open>The comparison of two dicts inside \<open>py_eq\<close>, by name.\<close>

definition dict_eq :: "(string \<times> 'c pyval) list \<Rightarrow> (string \<times> 'c pyval) list \<Rightarrow> bool" where
  "dict_eq d e = (\<forall>k \<in> set (map fst d) \<union> set (map fst e).
                  case map_of d k of
                    None \<Rightarrow> False
                  | Some v \<Rightarrow> (case map_of e k of None \<Rightarrow> False | Some w \<Rightarrow> py_eq v w))"

text \<open>
  \<^verbatim>\<open>hasattr(x, "to_dict")\<close>, and the values \<^verbatim>\<open>to_dict\<close> stores as they are: those
  that neither have \<^verbatim>\<open>to_dict\<close> nor are a list or a dict with a member that has it.
\<close>

definition has_to_dict :: "'c pyval \<Rightarrow> bool" where
  "has_to_dict x = (case x of PObj obj \<Rightarrow> True | _ \<Rightarrow> False)"

definition plain :: "'c pyval \<Rightarrow> bool" where
  "plain v =
     (case v of
        PList xs \<Rightarrow> list_all (\<lambda>x. \<not> has_to_dict x) xs
      | PObj obj \<Rightarrow> False
      | PDict entries \<Rightarrow> list_all (\<lambda>item. \<not> has_to_dict (snd item)) entries
      | _ \<Rightarrow> True)"

text \<open>
  The mapping that claim C1 describes, written from its words: for each entry of
  \<^verbatim>\<open>attribute_map\<close> whose field was supplied (\<open>Some v\<close>), the supplied value under the
  external name; nothing for a field that was not supplied.
\<close>

definition claimed_to_dict ::
  "'c pyval option \<Rightarrow> 'c pyval option \<Rightarrow> 'c pyval option \<Rightarrow> (string \<times> 'c pyval) list" where
  "claimed_to_dict batch_size' glob_pattern' glob_pattern_base_path' =
     concat (map (\<lambda>(attr, key).
        case (case attr of
                Batch_size \<Rightarrow> batch_size'
              | Glob_pattern \<Rightarrow> glob_pattern'
              | Glob_pattern_base_path \<Rightarrow> glob_pattern_base_path') of
          None \<Rightarrow> []
        | Some v \<Rightarrow> [(key, v)]) attribute_map)"

text \<open>
  A printer to put in the place of \<^verbatim>\<open>pformat\<close> in an example: of a dict it prints the
  entry \<^verbatim>\<open>batch_size\<close> when that is a string, and nothing otherwise.
\<close>

definition show_batch_size :: "'c pyval \<Rightarrow> string" where
  "show_batch_size v =
     (case v of
        PDict d \<Rightarrow> (case map_of d ''batch_size'' of Some (PStr s) \<Rightarrow> s | _ \<Rightarrow> [])
      | _ \<Rightarrow> [])"

text \<open>
  Two instances for the examples, with configurations that are the numbers 0 and 1: the same
  field values, the first passed to the constructor, the second assigned afterwards.
\<close>

definition example_constructed :: "nat JobShardingConfig" where
  "example_constructed = construct 0 (Some (PInt 10)) (Some (PStr ''/*'')) None None"

definition example_assigned :: "nat JobShardingConfig" where
  "example_assigned =
     glob_pattern_setter (batch_size_setter (construct 1 None None None None) (PInt 10))
       (PStr ''/*'')"

text \<open>
  The values a field may hold by its declaration: \<^verbatim>\<open>None\<close> (every field is optional),
  or a value of the type that \<^verbatim>\<open>swagger_types\<close> names for the attribute.
\<close>

fun has_type :: "string \<Rightarrow> 'c pyval \<Rightarrow> bool" where
  "has_type ty (PInt i) = (ty = ''int'')"
| "has_type ty (PStr s) = (ty = ''str'')"
| "has_type ty v = False"

definition declared :: "attr \<Rightarrow> 'c pyval \<Rightarrow> bool" where
  "declared a v =
     (case map_of swagger_types a of
        None \<Rightarrow> False
      | Some ty \<Rightarrow> v = PNone \<or> has_type ty v)"

section \<open>Auxiliary lemmas\<close>

lemma py_eq_PNone [simp]: "py_eq PNone y = (y = PNone)"
  by (simp add: py_eq.simps[of PNone y] split: pyval.split)

lemma py_eq_PInt [simp]: "py_eq (PInt i) y = (y = PInt i)"
  by (auto simp add: py_eq.simps[of "PInt i" y] split: pyval.split)

lemma py_eq_PStr [simp]: "py_eq (PStr s) y = (y = PStr s)"
  by (auto simp add: py_eq.simps[of "PStr s" y] split: pyval.split)

lemma py_eq_PList [simp]:
  "py_eq (PList xs) y = (case y of PList ys \<Rightarrow> list_all2 py_eq xs ys | _ \<Rightarrow> False)"
  by (simp add: py_eq.simps[of "PList xs" y])

lemma py_eq_PObj [simp]: "py_eq (PObj self) y = dunder_eq self y"
  by (simp add: py_eq.simps[of "PObj self" y])

lemma py_eq_PDict [simp]:
  "py_eq (PDict d) y = (case y of PDict e \<Rightarrow> dict_eq d e | _ \<Rightarrow> False)"
  by (simp add: py_eq.simps[of "PDict d" y] dict_eq_def split: pyval.split)

lemma dict_eq_lookup:
  assumes "dict_eq d e" and "k \<in> set (map fst d) \<union> set (map fst e)"
  shows "\<exists>v w. map_of d k = Some v \<and> map_of e k = Some w \<and> py_eq v w"
proof -
  have "case map_of d k of None \<Rightarrow> False
        | Some v \<Rightarrow> (case map_of e k of None \<Rightarrow> False | Some w \<Rightarrow> py_eq v w)"
    using assms unfolding dict_eq_def by (rule bspec)
  then show ?thesis
    by (cases "map_of d k"; cases "map_of e k") simp_all
qed

lemma dunder_eq_PObj:
  "dunder_eq self (PObj other) =
     (py_eq (value_to_dict (batch_size self)) (value_to_dict (batch_size other)) \<and>
      py_eq (value_to_dict (glob_pattern self)) (value_to_dict (glob_pattern other)) \<and>
      py_eq (value_to_dict (glob_pattern_base_path self)) (value_to_dict (glob_pattern_base_path other)))"
  by (simp add: dunder_eq.simps[of self "PObj other"] py_eq_PDict dict_eq_def to_dict_fields)

lemma dunder_eq_isinstance: "dunder_eq self other \<Longrightarrow> \<exists>obj. other = PObj obj"
  by (cases other) (simp_all add: dunder_eq.simps[of self])

lemma py_eq_refl_aux:
  fixes x y :: "'c pyval" and self :: "'c JobShardingConfig" and other :: "'c pyval"
  shows "x = y \<longrightarrow> py_eq x y" and "other = PObj self \<longrightarrow> dunder_eq self other"
proof (induction x y and self other rule: py_eq_dunder_eq.induct)
  case (1 x y)
  show ?case
  proof
    assume xy: "x = y"
    show "py_eq x y"
    proof (cases x)
      case (PList xs)
      have "list_all2 py_eq xs xs"
        using 1(1)[OF PList] PList xy by (simp add: list_all2_same)
      then show ?thesis using PList xy by simp
    next
      case (PDict d)
      have "dict_eq d d"
        unfolding dict_eq_def
      proof
        fix k assume "k \<in> set (map fst d) \<union> set (map fst d)"
        then obtain v where v: "map_of d k = Some v"
          by (metis Un_iff map_of_eq_None_iff not_None_eq set_map)
        have "py_eq v v" using 1(2)[OF PDict _ _ v v] PDict xy \<open>k \<in> _\<close> by simp
        then show "case map_of d k of None \<Rightarrow> False
              | Some v \<Rightarrow> (case map_of d k of None \<Rightarrow> False | Some w \<Rightarrow> py_eq v w)"
          using v by simp
      qed
      then show ?thesis using PDict xy by (simp add: py_eq_PDict)
    next
      case (PObj obj)
      then show ?thesis using 1(3)[OF PObj] xy by simp
    qed (use xy in simp_all)
  qed
next
  case (2 self other)
  show ?case
  proof
    assume o: "other = PObj self"
    then show "dunder_eq self other"
      using 2[OF o] by (simp add: dunder_eq.simps[of self "PObj self"])
  qed
qed

lemma py_eq_refl: "py_eq x x"
  using py_eq_refl_aux(1)[of x x] by simp

lemma py_eq_sym_aux:
  fixes x y :: "'c pyval" and self :: "'c JobShardingConfig" and other :: "'c pyval"
  shows "py_eq x y \<longrightarrow> py_eq y x"
    and "dunder_eq self other \<longrightarrow> (\<forall>obj. other = PObj obj \<longrightarrow> dunder_eq obj (PObj self))"
proof (induction x y and self other rule: py_eq_dunder_eq.induct)
  case (1 x y)
  show ?case
  proof
    assume xy: "py_eq x y"
    show "py_eq y x"
    proof (cases x)
      case (PList xs)
      then obtain ys where ys: "y = PList ys" and rel: "list_all2 py_eq xs ys"
        using xy by (auto split: pyval.splits)
      have "list_all2 (\<lambda>a b. py_eq b a) xs ys"
      proof (rule list.rel_mono_strong[OF rel])
        fix z yb assume "z \<in> set xs" "yb \<in> set ys" "py_eq z yb"
        then show "py_eq yb z" using 1(1)[OF PList ys] by blast
      qed
      then have "list_all2 py_eq ys xs"
        by (simp add: list_all2_conv_all_nth)
      then show ?thesis using PList ys by simp
    next
      case (PDict d)
      then obtain e where e: "y = PDict e" and rel: "dict_eq d e"
        using xy by (auto simp: py_eq_PDict split: pyval.splits)
      have "dict_eq e d"
        unfolding dict_eq_def
      proof
        fix k assume k: "k \<in> set (map fst e) \<union> set (map fst d)"
        then have k': "k \<in> set (map fst d) \<union> set (map fst e)" by auto
        obtain v w where v: "map_of d k = Some v" and w: "map_of e k = Some w"
            and vw: "py_eq v w"
          using dict_eq_lookup[OF rel k'] by blast
        have "py_eq w v" using 1(2)[OF PDict e k' v w] vw by simp
        then show "case map_of e k of None \<Rightarrow> False
              | Some v \<Rightarrow> (case map_of d k of None \<Rightarrow> False | Some w \<Rightarrow> py_eq v w)"
          using v w by simp
      qed
      then show ?thesis using PDict e by (simp add: py_eq_PDict)
    next
      case (PObj self)
      then have d: "dunder_eq self y" using xy by simp
      then obtain obj where obj: "y = PObj obj"
        using dunder_eq_isinstance by blast
      then show ?thesis using 1(3)[OF PObj] d PObj by simp
    qed (use xy in auto)
  qed
next
  case (2 self other)
  show ?case
  proof (intro impI allI)
    fix obj assume d: "dunder_eq self other" and o: "other = PObj obj"
    then have "py_eq (PDict (to_dict self)) (PDict (to_dict obj))"
      by (simp add: dunder_eq.simps[of self])
    then have "py_eq (PDict (to_dict obj)) (PDict (to_dict self))"
      using 2[OF o] by simp
    then show "dunder_eq obj (PObj self)"
      by (simp add: dunder_eq.simps[of obj "PObj self"])
  qed
qed

lemma py_eq_sym: "py_eq x y \<Longrightarrow> py_eq y x"
  using py_eq_sym_aux(1)[of x y] by simp

lemma py_eq_element_to_dict:
  assumes "py_eq x y"
  shows "py_eq (element_to_dict x) (element_to_dict y)"
proof (cases x)
  case (PObj self)
  then have d: "dunder_eq self y" using assms by simp
  then obtain obj where obj: "y = PObj obj"
    using dunder_eq_isinstance by blast
  then show ?thesis
    using d PObj by (simp add: element_to_dict_def dunder_eq.simps[of self "PObj obj"])
next
  case (PDict d)
  then show ?thesis
    using assms by (auto simp: element_to_dict_def py_eq_PDict split: pyval.splits)
qed (use assms in \<open>auto simp: element_to_dict_def split: pyval.splits\<close>)

lemma map_of_item_to_dict:
  "map_of (map item_to_dict d) k = map_option element_to_dict (map_of d k)"
proof (induction d)
  case Nil
  show ?case by simp
next
  case (Cons item d)
  obtain k' v where item: "item = (k', v)" by (cases item)
  have "item_to_dict (k', v) = (k', element_to_dict v)"
    using fst_item_to_dict[of "(k', v)"] snd_item_to_dict[of "(k', v)"]
    by (metis fst_conv prod.collapse snd_conv)
  then show ?case using Cons item by simp
qed

lemma fst_map_item_to_dict: "map fst (map item_to_dict d) = map fst d"
  by (simp add: fst_item_to_dict)

lemma py_eq_value_to_dict:
  assumes "py_eq x y"
  shows "py_eq (value_to_dict x) (value_to_dict y)"
proof (cases x)
  case (PList xs)
  then obtain ys where ys: "y = PList ys" and rel: "list_all2 py_eq xs ys"
    using assms by (auto split: pyval.splits)
  have "list_all2 py_eq (map element_to_dict xs) (map element_to_dict ys)"
    unfolding list_all2_map1 list_all2_map2
    using rel by (rule list_all2_mono) (rule py_eq_element_to_dict)
  then show ?thesis using PList ys by (simp add: value_to_dict_def)
next
  case (PDict d)
  then obtain e where e: "y = PDict e" and rel: "dict_eq d e"
    using assms by (auto simp: py_eq_PDict split: pyval.splits)
  have "dict_eq (map item_to_dict d) (map item_to_dict e)"
    unfolding dict_eq_def fst_map_item_to_dict map_of_item_to_dict
  proof
    fix k assume k: "k \<in> set (map fst d) \<union> set (map fst e)"
    obtain v w where v: "map_of d k = Some v" and w: "map_of e k = Some w"
        and vw: "py_eq v w"
      using dict_eq_lookup[OF rel k] by blast
    show "case map_option element_to_dict (map_of d k) of None \<Rightarrow> False
          | Some v \<Rightarrow> (case map_option element_to_dict (map_of e k) of None \<Rightarrow> False
                        | Some w \<Rightarrow> py_eq v w)"
      using v w py_eq_element_to_dict[OF vw] by simp
  qed
  then show ?thesis using PDict e by (simp add: value_to_dict_def py_eq_PDict)
next
  case (PObj self)
  then obtain obj where "y = PObj obj"
    using assms dunder_eq_isinstance by fastforce
  then show ?thesis
    using py_eq_element_to_dict[OF assms] PObj
    by (simp add: value_to_dict_def element_to_dict_def)
qed (use assms in \<open>auto simp: value_to_dict_def split: pyval.splits\<close>)

lemma element_to_dict_id: "\<not> has_to_dict x \<Longrightarrow> element_to_dict x = x"
  by (simp add: has_to_dict_def element_to_dict_def split: pyval.splits)

lemma item_to_dict_id: "\<not> has_to_dict (snd item) \<Longrightarrow> item_to_dict item = item"
  by (simp add: has_to_dict_def item_to_dict_def split: pyval.splits)

lemma value_to_dict_plain: "plain v \<Longrightarrow> value_to_dict v = v"
  by (cases v)
     (simp_all add: plain_def value_to_dict_def list_all_iff map_idI
        element_to_dict_id item_to_dict_id)

lemma plain_simps [simp]: "plain PNone" "plain (PInt i)" "plain (PStr s)" "\<not> plain (PObj obj)"
  by (simp_all add: plain_def)

lemma getters_construct:
  "batch_size (construct C b g p c) = argument PNone b"
  "glob_pattern (construct C b g p c) = argument PNone g"
  "glob_pattern_base_path (construct C b g p c) = argument PNone p"
  by (simp_all add: construct_def dunder_init_def Let_def batch_size_def glob_pattern_def
        glob_pattern_base_path_def batch_size_setter_def glob_pattern_setter_def
        glob_pattern_base_path_setter_def)

lemma f_construct:
  "f_batch_size (construct C b g p c) = argument PNone b"
  "f_glob_pattern (construct C b g p c) = argument PNone g"
  "f_glob_pattern_base_path (construct C b g p c) = argument PNone p"
  using getters_construct[of C b g p c]
  by (simp_all add: batch_size_def glob_pattern_def glob_pattern_base_path_def)

lemma getters_setters [simp]:
  "batch_size (batch_size_setter self v) = v"
  "glob_pattern (batch_size_setter self v) = glob_pattern self"
  "glob_pattern_base_path (batch_size_setter self v) = glob_pattern_base_path self"
  "batch_size (glob_pattern_setter self v) = batch_size self"
  "glob_pattern (glob_pattern_setter self v) = v"
  "glob_pattern_base_path (glob_pattern_setter self v) = glob_pattern_base_path self"
  "batch_size (glob_pattern_base_path_setter self v) = batch_size self"
  "glob_pattern (glob_pattern_base_path_setter self v) = glob_pattern self"
  "glob_pattern_base_path (glob_pattern_base_path_setter self v) = v"
  by (cases self; simp add: batch_size_def glob_pattern_def glob_pattern_base_path_def
        batch_size_setter_def glob_pattern_setter_def glob_pattern_base_path_setter_def)+

lemma dunder_eq_equal_fields:
  assumes "py_eq (batch_size s) (batch_size t)"
    and "py_eq (glob_pattern s) (glob_pattern t)"
    and "py_eq (glob_pattern_base_path s) (glob_pattern_base_path t)"
  shows "dunder_eq s (PObj t)"
  using assms by (simp add: dunder_eq_PObj py_eq_value_to_dict)

lemma construct_same_to_dict:
  "argument PNone b = argument PNone b' \<Longrightarrow> argument PNone g = argument PNone g' \<Longrightarrow>
   argument PNone p = argument PNone p' \<Longrightarrow>
   to_dict (construct C b g p c) = to_dict (construct C' b' g' p' c')"
  by (simp add: to_dict_fields getters_construct)

lemma dunder_eq_same_dict: "to_dict s = to_dict t \<Longrightarrow> dunder_eq s (PObj t)"
  by (simp add: dunder_eq.simps[of s] py_eq_refl del: py_eq_PDict)

lemma dunder_eq_dicts:
  "dunder_eq s (PObj t) = py_eq (PDict (to_dict s)) (PDict (to_dict t))"
  by (simp add: dunder_eq.simps[of s] del: py_eq_PDict)

lemma show_batch_size_py_eq:
  assumes "py_eq x y"
  shows "show_batch_size x = show_batch_size y"
proof (cases x)
  case (PDict d)
  then obtain e where e: "y = PDict e" and rel: "dict_eq d e"
    using assms by (auto split: pyval.splits)
  show ?thesis
  proof (cases "''batch_size'' \<in> set (map fst d) \<union> set (map fst e)")
    case True
    obtain v w where v: "map_of d ''batch_size'' = Some v"
        and w: "map_of e ''batch_size'' = Some w" and vw: "py_eq v w"
      using dict_eq_lookup[OF rel True] by blast
    have "(\<exists>s. v = PStr s) \<or> (\<exists>s. w = PStr s) \<Longrightarrow> v = w"
      using vw py_eq_sym[OF vw] by auto
    then show ?thesis
      using PDict e v w by (cases v; cases w) (auto simp: show_batch_size_def)
  next
    case False
    then have "map_of d ''batch_size'' = None" "map_of e ''batch_size'' = None"
      by (simp_all add: map_of_eq_None_iff)
    then show ?thesis using PDict e by (simp add: show_batch_size_def)
  qed
next
  case (PObj self)
  then obtain obj where "y = PObj obj" using assms dunder_eq_isinstance by fastforce
  then show ?thesis using PObj by (simp add: show_batch_size_def)
qed (use assms in \<open>auto simp: show_batch_size_def split: pyval.splits\<close>)

lemma declared_plain: "declared a v \<Longrightarrow> plain v"
  by (cases a; cases v) (simp_all add: declared_def swagger_types_def)

lemma dunder_eq_after_setter:
  "dunder_eq s (PObj (batch_size_setter s v)) =
     py_eq (value_to_dict (batch_size s)) (value_to_dict v)"
  "dunder_eq (batch_size_setter s v) (PObj s) =
     py_eq (value_to_dict v) (value_to_dict (batch_size s))"
  "dunder_eq s (PObj (glob_pattern_setter s v)) =
     py_eq (value_to_dict (glob_pattern s)) (value_to_dict v)"
  "dunder_eq (glob_pattern_setter s v) (PObj s) =
     py_eq (value_to_dict v) (value_to_dict (glob_pattern s))"
  "dunder_eq s (PObj (glob_pattern_base_path_setter s v)) =
     py_eq (value_to_dict (glob_pattern_base_path s)) (value_to_dict v)"
  "dunder_eq (glob_pattern_base_path_setter s v) (PObj s) =
     py_eq (value_to_dict v) (value_to_dict (glob_pattern_base_path s))"
  by (simp_all add: dunder_eq_PObj py_eq_refl)

lemma changed_declared_field:
  assumes "declared a old" and "declared a v" and "\<not> py_eq old v"
  shows "\<not> py_eq (value_to_dict old) (value_to_dict v)"
    and "\<not> py_eq (value_to_dict v) (value_to_dict old)"
proof -
  have "value_to_dict old = old" "value_to_dict v = v"
    using assms declared_plain value_to_dict_plain by blast+
  moreover have "\<not> py_eq v old" using assms(3) py_eq_sym by blast
  ultimately show "\<not> py_eq (value_to_dict old) (value_to_dict v)"
    and "\<not> py_eq (value_to_dict v) (value_to_dict old)"
    using assms(3) by simp_all
qed

section \<open>The claims\<close>

subsection \<open>C1: to_dict after construction\<close>

text \<open>
  Claim C1, as amended. For every combination of the three optional fields, each passed with
  any value or left out, \<^verbatim>\<open>to_dict()\<close> of the constructed instance is a mapping with
  exactly the three keys \<^verbatim>\<open>batch_size\<close>, \<^verbatim>\<open>glob_pattern\<close> and
  \<^verbatim>\<open>glob_pattern_base_path\<close>, the attribute names of \<^verbatim>\<open>swagger_types\<close>; the names of
  \<^verbatim>\<open>attribute_map\<close> are not used. A field that was supplied is mapped to its value in
  dict form, a field that was left out to \<^verbatim>\<open>None\<close>; the dict form of a value that
  holds no object with \<^verbatim>\<open>to_dict\<close> (\<^verbatim>\<open>None\<close>, an integer, a string) is the value itself.
\<close>

theorem to_dict_construct:
  fixes C :: 'c
  shows "to_dict (construct C b g p c) =
      [(''batch_size'', value_to_dict (argument PNone b)),
       (''glob_pattern'', value_to_dict (argument PNone g)),
       (''glob_pattern_base_path'', value_to_dict (argument PNone p))]
    \<and> (\<forall>v :: 'c pyval. plain v \<longrightarrow> value_to_dict v = v)"
  by (simp add: to_dict_fields getters_construct value_to_dict_plain)

theorem to_dict_construct_witness:
  "to_dict (construct () (Some (PInt 5)) None (Some (PStr ''/data'')) None) =
     [(''batch_size'', PInt 5), (''glob_pattern'', PNone),
      (''glob_pattern_base_path'', PStr ''/data'')]"
  using to_dict_construct[of "()" "Some (PInt 5)" None "Some (PStr ''/data'')" None]
  by simp

text \<open>
  The claim as stated fails: with only \<^verbatim>\<open>batch_size=5\<close> supplied it describes the mapping
  \<^verbatim>\<open>{"BatchSize": 5}\<close>, and \<^verbatim>\<open>to_dict()\<close> returns
  \<^verbatim>\<open>{"batch_size": 5, "glob_pattern": None, "glob_pattern_base_path": None}\<close>.
\<close>

theorem to_dict_external_names_counterexample:
  "claimed_to_dict (Some (PInt 5)) None None = [(''BatchSize'', PInt 5 :: unit pyval)]
   \<and> to_dict (construct () (Some (PInt 5)) None None None) =
       [(''batch_size'', PInt 5), (''glob_pattern'', PNone), (''glob_pattern_base_path'', PNone)]
   \<and> \<not> py_eq (PDict (to_dict (construct () (Some (PInt 5)) None None None)))
             (PDict (claimed_to_dict (Some (PInt 5)) None None))"
  by (simp add: claimed_to_dict_def attribute_map_def to_dict_fields getters_construct
        value_to_dict_plain dict_eq_def)

subsection \<open>C2: the example of the specification\<close>

text \<open>
  Claim C2, as amended. Constructing with \<^verbatim>\<open>batch_size=10\<close>, \<^verbatim>\<open>glob_pattern="/*"\<close> and
  \<^verbatim>\<open>glob_pattern_base_path="/data"\<close>, \<^verbatim>\<open>to_dict()\<close> produces exactly the mapping
  \<^verbatim>\<open>{"batch_size": 10, "glob_pattern": "/*", "glob_pattern_base_path": "/data"}\<close>,
  whatever the configuration.
\<close>

theorem to_dict_example:
  "to_dict (construct C (Some (PInt 10)) (Some (PStr ''/*'')) (Some (PStr ''/data'')) c) =
     [(''batch_size'', PInt 10), (''glob_pattern'', PStr ''/*''),
      (''glob_pattern_base_path'', PStr ''/data'')]"
  by (simp add: to_dict_fields getters_construct value_to_dict_plain)

theorem to_dict_example_witness:
  "to_dict (construct () (Some (PInt 10)) (Some (PStr ''/*'')) (Some (PStr ''/data'')) None) =
     [(''batch_size'', PInt 10), (''glob_pattern'', PStr ''/*''),
      (''glob_pattern_base_path'', PStr ''/data'')]"
  by (rule to_dict_example)

text \<open>The result is not the mapping under the external names that the claim states.\<close>

theorem to_dict_example_counterexample:
  "\<not> py_eq (PDict (to_dict (construct () (Some (PInt 10)) (Some (PStr ''/*''))
                (Some (PStr ''/data'')) None)))
          (PDict [(''BatchSize'', PInt 10), (''GlobPattern'', PStr ''/*''),
                  (''GlobPatternBasePath'', PStr ''/data'')])"
  by (simp add: to_dict_fields getters_construct value_to_dict_plain dict_eq_def)

subsection \<open>C3: construction with no arguments\<close>

text \<open>
  Claim C3. Constructing with no arguments, \<^verbatim>\<open>to_dict()\<close> yields a mapping in which
  all three field keys are present and each is mapped to \<^verbatim>\<open>None\<close>.
\<close>

theorem to_dict_no_arguments:
  "to_dict (construct C None None None c) =
     [(''batch_size'', PNone), (''glob_pattern'', PNone), (''glob_pattern_base_path'', PNone)]
   \<and> map_of (to_dict (construct C None None None c)) ''batch_size'' = Some PNone
   \<and> map_of (to_dict (construct C None None None c)) ''glob_pattern'' = Some PNone
   \<and> map_of (to_dict (construct C None None None c)) ''glob_pattern_base_path'' = Some PNone"
  by (simp add: to_dict_fields getters_construct value_to_dict_plain)

theorem to_dict_no_arguments_witness:
  "map fst (to_dict (construct () None None None None)) =
     [''batch_size'', ''glob_pattern'', ''glob_pattern_base_path'']
   \<and> map snd (to_dict (construct () None None None None)) = [PNone, PNone, PNone]"
  using to_dict_no_arguments[of "()" None] by simp

subsection \<open>C4: equality follows the field values\<close>

text \<open>
  Claim C4. For every two instances, if their three field values are pairwise equal (however
  the values got there: passed to the constructor or assigned through the setters, in any
  order) then \<^verbatim>\<open>__eq__\<close> returns true. For every instance, changing exactly one field to
  a different value makes \<^verbatim>\<open>__eq__\<close> with the original return false, in both directions;
  the values of a field are those of its declaration in \<^verbatim>\<open>swagger_types\<close>, an integer
  for \<^verbatim>\<open>batch_size\<close> and a string for the other two, or \<^verbatim>\<open>None\<close>.
\<close>

theorem dunder_eq_fields:
  fixes s t :: "'c JobShardingConfig"
  shows
    "(py_eq (batch_size s) (batch_size t) \<and> py_eq (glob_pattern s) (glob_pattern t) \<and>
      py_eq (glob_pattern_base_path s) (glob_pattern_base_path t) \<longrightarrow> dunder_eq s (PObj t))
   \<and> (declared Batch_size (batch_size s) \<and> declared Batch_size v \<and>
       \<not> py_eq (batch_size s) v \<longrightarrow>
        \<not> dunder_eq s (PObj (batch_size_setter s v)) \<and>
        \<not> dunder_eq (batch_size_setter s v) (PObj s))
   \<and> (declared Glob_pattern (glob_pattern s) \<and> declared Glob_pattern v \<and>
       \<not> py_eq (glob_pattern s) v \<longrightarrow>
        \<not> dunder_eq s (PObj (glob_pattern_setter s v)) \<and>
        \<not> dunder_eq (glob_pattern_setter s v) (PObj s))
   \<and> (declared Glob_pattern_base_path (glob_pattern_base_path s) \<and>
       declared Glob_pattern_base_path v \<and> \<not> py_eq (glob_pattern_base_path s) v \<longrightarrow>
        \<not> dunder_eq s (PObj (glob_pattern_base_path_setter s v)) \<and>
        \<not> dunder_eq (glob_pattern_base_path_setter s v) (PObj s))"
proof (intro conjI impI)
  assume "py_eq (batch_size s) (batch_size t) \<and> py_eq (glob_pattern s) (glob_pattern t) \<and>
      py_eq (glob_pattern_base_path s) (glob_pattern_base_path t)"
  then show "dunder_eq s (PObj t)" by (simp add: dunder_eq_equal_fields)
next
  assume a: "declared Batch_size (batch_size s) \<and> declared Batch_size v \<and>
       \<not> py_eq (batch_size s) v"
  then show "\<not> dunder_eq s (PObj (batch_size_setter s v))"
    and "\<not> dunder_eq (batch_size_setter s v) (PObj s)"
    using changed_declared_field[of Batch_size "batch_size s" v]
    by (simp_all add: dunder_eq_after_setter)
next
  assume a: "declared Glob_pattern (glob_pattern s) \<and> declared Glob_pattern v \<and>
       \<not> py_eq (glob_pattern s) v"
  then show "\<not> dunder_eq s (PObj (glob_pattern_setter s v))"
    and "\<not> dunder_eq (glob_pattern_setter s v) (PObj s)"
    using changed_declared_field[of Glob_pattern "glob_pattern s" v]
    by (simp_all add: dunder_eq_after_setter)
next
  assume a: "declared Glob_pattern_base_path (glob_pattern_base_path s) \<and>
       declared Glob_pattern_base_path v \<and> \<not> py_eq (glob_pattern_base_path s) v"
  then show "\<not> dunder_eq s (PObj (glob_pattern_base_path_setter s v))"
    and "\<not> dunder_eq (glob_pattern_base_path_setter s v) (PObj s)"
    using changed_declared_field[of Glob_pattern_base_path "glob_pattern_base_path s" v]
    by (simp_all add: dunder_eq_after_setter)
qed

theorem dunder_eq_fields_witness:
  "py_eq (batch_size example_constructed) (batch_size example_assigned)
   \<and> py_eq (glob_pattern example_constructed) (glob_pattern example_assigned)
   \<and> py_eq (glob_pattern_base_path example_constructed)
        (glob_pattern_base_path example_assigned)
   \<and> dunder_eq example_constructed (PObj example_assigned)
   \<and> declared Batch_size (batch_size example_constructed)
   \<and> declared Batch_size (PInt 11 :: nat pyval)
   \<and> \<not> py_eq (batch_size example_constructed) (PInt 11)
   \<and> \<not> dunder_eq example_constructed (PObj (batch_size_setter example_constructed (PInt 11)))
   \<and> \<not> dunder_eq (batch_size_setter example_constructed (PInt 11)) (PObj example_constructed)
   \<and> declared Glob_pattern (glob_pattern example_constructed)
   \<and> declared Glob_pattern (PStr [] :: nat pyval)
   \<and> \<not> py_eq (glob_pattern example_constructed) (PStr [])
   \<and> \<not> dunder_eq example_constructed (PObj (glob_pattern_setter example_constructed (PStr [])))
   \<and> \<not> dunder_eq (glob_pattern_setter example_constructed (PStr [])) (PObj example_constructed)
   \<and> declared Glob_pattern_base_path (glob_pattern_base_path example_constructed)
   \<and> declared Glob_pattern_base_path (PStr ''/data'' :: nat pyval)
   \<and> \<not> py_eq (glob_pattern_base_path example_constructed) (PStr ''/data'')
   \<and> \<not> dunder_eq example_constructed
          (PObj (glob_pattern_base_path_setter example_constructed (PStr ''/data'')))
   \<and> \<not> dunder_eq (glob_pattern_base_path_setter example_constructed (PStr ''/data''))
          (PObj example_constructed)"
proof -
  have eq: "py_eq (batch_size example_constructed) (batch_size example_assigned)"
    "py_eq (glob_pattern example_constructed) (glob_pattern example_assigned)"
    "py_eq (glob_pattern_base_path example_constructed)
       (glob_pattern_base_path example_assigned)"
    by (simp_all add: example_constructed_def example_assigned_def getters_construct)
  have b: "declared Batch_size (batch_size example_constructed)"
    "declared Batch_size (PInt 11 :: nat pyval)"
    "\<not> py_eq (batch_size example_constructed) (PInt 11)"
    by (simp_all add: example_constructed_def getters_construct declared_def swagger_types_def)
  have g: "declared Glob_pattern (glob_pattern example_constructed)"
    "declared Glob_pattern (PStr [] :: nat pyval)"
    "\<not> py_eq (glob_pattern example_constructed) (PStr [])"
    by (simp_all add: example_constructed_def getters_construct declared_def swagger_types_def)
  have p: "declared Glob_pattern_base_path (glob_pattern_base_path example_constructed)"
    "declared Glob_pattern_base_path (PStr ''/data'' :: nat pyval)"
    "\<not> py_eq (glob_pattern_base_path example_constructed) (PStr ''/data'')"
    by (simp_all add: example_constructed_def getters_construct declared_def swagger_types_def)
  show ?thesis
    using eq b g p
      dunder_eq_fields[of example_constructed example_assigned "PInt 11"]
      dunder_eq_fields[of example_constructed example_assigned "PStr []"]
      dunder_eq_fields[of example_constructed example_assigned "PStr ''/data''"]
    by blast
qed

subsection \<open>C5: comparison with a value of another type\<close>

text \<open>
  Claim C5. For every instance and every value that is not a \<^verbatim>\<open>JobShardingConfig\<close>,
  \<^verbatim>\<open>__eq__\<close> returns false and \<^verbatim>\<open>__ne__\<close> returns true. Both are total functions
  that answer at the \<^verbatim>\<open>isinstance\<close> test, before anything else is evaluated, so neither
  comparison raises.
\<close>

theorem dunder_eq_other_type:
  assumes "\<not> isinstance_JobShardingConfig other"
  shows "dunder_eq self other = False \<and> dunder_ne self other = True"
  using assms
  by (cases other)
     (simp_all add: isinstance_JobShardingConfig_def dunder_ne_def dunder_eq.simps[of self])

theorem dunder_eq_other_type_witness:
  "\<not> isinstance_JobShardingConfig (PDict (to_dict (construct () None None None None)))
   \<and> dunder_eq (construct () None None None None)
       (PDict (to_dict (construct () None None None None))) = False
   \<and> dunder_ne (construct () None None None None)
       (PDict (to_dict (construct () None None None None))) = True"
proof -
  have h: "\<not> isinstance_JobShardingConfig (PDict (to_dict (construct () None None None None)))"
    by (simp add: isinstance_JobShardingConfig_def)
  show ?thesis using h dunder_eq_other_type[OF h] by simp
qed

subsection \<open>C6: to_str is a function of the field values\<close>

text \<open>
  Claim C6. \<^verbatim>\<open>to_str()\<close> is a function of the three field values alone: two instances
  with the same field values produce identical strings (and so does \<^verbatim>\<open>__repr__\<close>),
  whatever their configuration, for every function \<^verbatim>\<open>pformat\<close>; and so do two instances
  whose field values are equal under \<^verbatim>\<open>==\<close>, when \<^verbatim>\<open>pformat\<close> prints equal values
  alike. A repeated call on an instance that was not modified is the same function applied
  to the same argument.
\<close>

theorem to_str_deterministic:
  "(batch_size s = batch_size t \<and> glob_pattern s = glob_pattern t \<and>
    glob_pattern_base_path s = glob_pattern_base_path t \<longrightarrow>
      to_str pformat s = to_str pformat t \<and> dunder_repr pformat s = dunder_repr pformat t)
   \<and> ((\<forall>x y. py_eq x y \<longrightarrow> pformat x = pformat y) \<and>
       py_eq (batch_size s) (batch_size t) \<and> py_eq (glob_pattern s) (glob_pattern t) \<and>
       py_eq (glob_pattern_base_path s) (glob_pattern_base_path t) \<longrightarrow>
      to_str pformat s = to_str pformat t \<and> dunder_repr pformat s = dunder_repr pformat t)"
proof (intro conjI impI)
  assume "batch_size s = batch_size t \<and> glob_pattern s = glob_pattern t \<and>
    glob_pattern_base_path s = glob_pattern_base_path t"
  then have "to_dict s = to_dict t" by (simp add: to_dict_fields)
  then show "to_str pformat s = to_str pformat t" "dunder_repr pformat s = dunder_repr pformat t"
    by (simp_all add: to_str_def dunder_repr_def)
next
  assume a: "(\<forall>x y. py_eq x y \<longrightarrow> pformat x = pformat y) \<and>
       py_eq (batch_size s) (batch_size t) \<and> py_eq (glob_pattern s) (glob_pattern t) \<and>
       py_eq (glob_pattern_base_path s) (glob_pattern_base_path t)"
  then have "dunder_eq s (PObj t)" by (simp add: dunder_eq_equal_fields)
  then have "py_eq (PDict (to_dict s)) (PDict (to_dict t))" by (simp only: dunder_eq_dicts)
  with a have "pformat (PDict (to_dict s)) = pformat (PDict (to_dict t))" by blast
  then show "to_str pformat s = to_str pformat t" "dunder_repr pformat s = dunder_repr pformat t"
    by (simp_all add: to_str_def dunder_repr_def)
qed

theorem to_str_deterministic_witness:
  "py_eq (glob_pattern (construct (0::nat) (Some (PStr ''ten''))
            (Some (PDict [(''a'', PInt 1), (''b'', PInt 2)])) None None))
         (glob_pattern (batch_size_setter
            (construct 2 None (Some (PDict [(''b'', PInt 2), (''a'', PInt 1)])) None None)
            (PStr ''ten'')))
   \<and> to_str show_batch_size
        (construct (0::nat) (Some (PStr ''ten''))
           (Some (PDict [(''a'', PInt 1), (''b'', PInt 2)])) None None) = ''ten''
   \<and> to_str show_batch_size
        (batch_size_setter
           (construct (2::nat) None (Some (PDict [(''b'', PInt 2), (''a'', PInt 1)])) None None)
           (PStr ''ten'')) = ''ten''
   \<and> to_str show_batch_size
        (construct (0::nat) (Some (PInt 10)) None None None) =
      to_str show_batch_size
        (batch_size_setter (construct (2::nat) None None None None) (PInt 10))"
proof -
  let ?s = "construct (0::nat) (Some (PStr ''ten''))
           (Some (PDict [(''a'', PInt 1), (''b'', PInt 2)])) None None"
  let ?t = "batch_size_setter
           (construct (2::nat) None (Some (PDict [(''b'', PInt 2), (''a'', PInt 1)])) None None)
           (PStr ''ten'')"
  let ?u = "construct (0::nat) (Some (PInt 10)) None None None"
  let ?w = "batch_size_setter (construct (2::nat) None None None None) (PInt 10)"
  have resp: "\<forall>x y :: nat pyval. py_eq x y \<longrightarrow> show_batch_size x = show_batch_size y"
    using show_batch_size_py_eq by blast
  have b: "py_eq (batch_size ?s) (batch_size ?t)" by (simp add: getters_construct)
  have g: "py_eq (glob_pattern ?s) (glob_pattern ?t)"
    by (simp add: getters_construct dict_eq_def)
  have p: "py_eq (glob_pattern_base_path ?s) (glob_pattern_base_path ?t)"
    by (simp add: getters_construct)
  have st: "to_str show_batch_size ?s = to_str show_batch_size ?t"
    using to_str_deterministic[of ?s ?t show_batch_size] resp b g p by blast
  have s: "to_str show_batch_size ?s = ''ten''"
    by (simp add: to_str_def to_dict_fields getters_construct show_batch_size_def
        value_to_dict_plain)
  have uw: "to_str show_batch_size ?u = to_str show_batch_size ?w"
    using to_str_deterministic[of ?u ?w show_batch_size] by (simp add: getters_construct)
  from g s st uw show ?thesis by simp
qed

subsection \<open>C7: the setters\<close>

text \<open>
  Claim C7. Each of the three setters replaces the value of its field by the value passed,
  whatever that value is, and leaves the other two fields (and the configuration and the
  discriminator) unchanged; the getter of that field then returns the value that was set.
\<close>

theorem setters_frame:
  "batch_size (batch_size_setter self v) = v
   \<and> glob_pattern (batch_size_setter self v) = glob_pattern self
   \<and> glob_pattern_base_path (batch_size_setter self v) = glob_pattern_base_path self
   \<and> f_configuration (batch_size_setter self v) = f_configuration self
   \<and> discriminator (batch_size_setter self v) = discriminator self
   \<and> batch_size (glob_pattern_setter self v) = batch_size self
   \<and> glob_pattern (glob_pattern_setter self v) = v
   \<and> glob_pattern_base_path (glob_pattern_setter self v) = glob_pattern_base_path self
   \<and> f_configuration (glob_pattern_setter self v) = f_configuration self
   \<and> discriminator (glob_pattern_setter self v) = discriminator self
   \<and> batch_size (glob_pattern_base_path_setter self v) = batch_size self
   \<and> glob_pattern (glob_pattern_base_path_setter self v) = glob_pattern self
   \<and> glob_pattern_base_path (glob_pattern_base_path_setter self v) = v
   \<and> f_configuration (glob_pattern_base_path_setter self v) = f_configuration self
   \<and> discriminator (glob_pattern_base_path_setter self v) = discriminator self"
  by (cases self)
     (simp add: batch_size_def glob_pattern_def glob_pattern_base_path_def
        batch_size_setter_def glob_pattern_setter_def glob_pattern_base_path_setter_def)

theorem setters_frame_witness:
  "batch_size (batch_size_setter (construct () None None None None) (PStr ''ten'')) = PStr ''ten''
   \<and> glob_pattern (glob_pattern_setter (construct () None None None None) (PInt (- 1))) = PInt (- 1)
   \<and> glob_pattern_base_path
        (glob_pattern_base_path_setter (construct () None None None None) (PList [])) = PList []"
  using setters_frame[of "construct () None None None None" "PStr ''ten''"]
    setters_frame[of "construct () None None None None" "PInt (- 1)"]
    setters_frame[of "construct () None None None None" "PList []"]
  by simp

subsection \<open>C8: __ne__ negates __eq__\<close>

text \<open>
  Claim C8. For every instance and every value, of any type, \<^verbatim>\<open>__ne__\<close> returns the
  negation of what \<^verbatim>\<open>__eq__\<close> returns on the same pair.
\<close>

theorem dunder_ne_negation:
  "dunder_ne self other = (\<not> dunder_eq self other)"
  by (cases other) (simp_all add: dunder_ne_def py_ne_def dunder_eq.simps[of self])

theorem dunder_ne_negation_witness:
  "dunder_ne (construct () None None None None) (PObj (construct () None None None None)) = False
   \<and> dunder_ne (construct () None None None None) PNone = True"
  using dunder_ne_negation[of "construct () None None None None"
      "PObj (construct () None None None None)"]
    dunder_ne_negation[of "construct () None None None None" PNone]
  by (simp add: dunder_eq_same_dict dunder_eq.simps[of _ PNone])

subsection \<open>C9: passing None is leaving the field out\<close>

text \<open>
  Claim C9. For each field, constructing with that field passed as \<^verbatim>\<open>None\<close> and
  constructing with the field left out both leave the internal value at \<^verbatim>\<open>None\<close>, and
  \<^verbatim>\<open>to_dict()\<close>, \<^verbatim>\<open>to_str()\<close> and \<^verbatim>\<open>__eq__\<close> do not tell the two instances apart,
  whatever the other arguments are.
\<close>

theorem explicit_None_is_omitted:
  "f_batch_size (construct C (Some PNone) g p c) = PNone
   \<and> f_batch_size (construct C' None g p c) = PNone
   \<and> to_dict (construct C (Some PNone) g p c) = to_dict (construct C' None g p c)
   \<and> to_str pformat (construct C (Some PNone) g p c) = to_str pformat (construct C' None g p c)
   \<and> dunder_eq (construct C (Some PNone) g p c) (PObj (construct C' None g p c))
   \<and> dunder_eq (construct C' None g p c) (PObj (construct C (Some PNone) g p c))
   \<and> f_glob_pattern (construct C b (Some PNone) p c) = PNone
   \<and> f_glob_pattern (construct C' b None p c) = PNone
   \<and> to_dict (construct C b (Some PNone) p c) = to_dict (construct C' b None p c)
   \<and> to_str pformat (construct C b (Some PNone) p c) = to_str pformat (construct C' b None p c)
   \<and> dunder_eq (construct C b (Some PNone) p c) (PObj (construct C' b None p c))
   \<and> dunder_eq (construct C' b None p c) (PObj (construct C b (Some PNone) p c))
   \<and> f_glob_pattern_base_path (construct C b g (Some PNone) c) = PNone
   \<and> f_glob_pattern_base_path (construct C' b g None c) = PNone
   \<and> to_dict (construct C b g (Some PNone) c) = to_dict (construct C' b g None c)
   \<and> to_str pformat (construct C b g (Some PNone) c) = to_str pformat (construct C' b g None c)
   \<and> dunder_eq (construct C b g (Some PNone) c) (PObj (construct C' b g None c))
   \<and> dunder_eq (construct C' b g None c) (PObj (construct C b g (Some PNone) c))"
proof -
  have b: "to_dict (construct C (Some PNone) g p c) = to_dict (construct C' None g p c)"
    by (rule construct_same_to_dict) simp_all
  have g: "to_dict (construct C b (Some PNone) p c) = to_dict (construct C' b None p c)"
    by (rule construct_same_to_dict) simp_all
  have p: "to_dict (construct C b g (Some PNone) c) = to_dict (construct C' b g None c)"
    by (rule construct_same_to_dict) simp_all
  show ?thesis
    using b g p dunder_eq_same_dict[OF b] dunder_eq_same_dict[OF g] dunder_eq_same_dict[OF p]
      dunder_eq_same_dict[OF b[symmetric]] dunder_eq_same_dict[OF g[symmetric]]
      dunder_eq_same_dict[OF p[symmetric]]
    by (simp add: f_construct to_str_def)
qed

theorem explicit_None_is_omitted_witness:
  "construct (0::nat) (Some PNone) (Some (PStr ''/*'')) None None =
     construct 0 None (Some (PStr ''/*'')) None None
   \<and> to_dict (construct (0::nat) (Some PNone) (Some (PStr ''/*'')) None None) =
       [(''batch_size'', PNone), (''glob_pattern'', PStr ''/*''),
        (''glob_pattern_base_path'', PNone)]
   \<and> to_dict (construct (0::nat) (Some PNone) (Some (PStr ''/*'')) None None) =
       to_dict (construct 2 None (Some (PStr ''/*'')) None None)
   \<and> dunder_eq (construct (0::nat) (Some PNone) (Some (PStr ''/*'')) None None)
       (PObj (construct 2 None (Some (PStr ''/*'')) None None))"
proof -
  note omitted = explicit_None_is_omitted[where C = "0::nat" and C' = 2
      and g = "Some (PStr ''/*'')" and p = None and c = None and b = None
      and pformat = "\<lambda>v. []"]
  have 1: "construct (0::nat) (Some PNone) (Some (PStr ''/*'')) None None =
      construct 0 None (Some (PStr ''/*'')) None None"
    by (simp add: construct_def)
  have 2: "to_dict (construct (0::nat) (Some PNone) (Some (PStr ''/*'')) None None) =
      [(''batch_size'', PNone), (''glob_pattern'', PStr ''/*''),
       (''glob_pattern_base_path'', PNone)]"
    by (simp add: to_dict_fields getters_construct value_to_dict_plain)
  from omitted have 3: "to_dict (construct (0::nat) (Some PNone) (Some (PStr ''/*'')) None None) =
      to_dict (construct 2 None (Some (PStr ''/*'')) None None)"
    by blast
  from omitted have 4: "dunder_eq (construct (0::nat) (Some PNone) (Some (PStr ''/*'')) None None)
      (PObj (construct 2 None (Some (PStr ''/*'')) None None))"
    by blast
  from 1 2 3 4 show ?thesis by blast
qed

subsection \<open>C10: the configuration is not observable\<close>

text \<open>
  Claim C10. Two instances with equal field values and different configurations are equal
  under \<^verbatim>\<open>__eq__\<close> and have identical \<^verbatim>\<open>to_dict()\<close> and \<^verbatim>\<open>to_str()\<close> results: this
  holds of any two such instances, and of two constructions that differ in the
  \<^verbatim>\<open>_configuration\<close> argument only.
\<close>

theorem configuration_not_observable:
  "to_dict (JobShardingConfig c b g p d) = to_dict (JobShardingConfig c' b g p d')
   \<and> to_str pformat (JobShardingConfig c b g p d) = to_str pformat (JobShardingConfig c' b g p d')
   \<and> dunder_eq (JobShardingConfig c b g p d) (PObj (JobShardingConfig c' b g p d'))
   \<and> \<not> dunder_ne (JobShardingConfig c b g p d) (PObj (JobShardingConfig c' b g p d'))
   \<and> to_dict (construct C b' g' p' a) = to_dict (construct C' b' g' p' a')
   \<and> to_str pformat (construct C b' g' p' a) = to_str pformat (construct C' b' g' p' a')
   \<and> dunder_eq (construct C b' g' p' a) (PObj (construct C' b' g' p' a'))
   \<and> \<not> dunder_ne (construct C b' g' p' a) (PObj (construct C' b' g' p' a'))"
proof -
  have 1: "to_dict (JobShardingConfig c b g p d) = to_dict (JobShardingConfig c' b g p d')"
    by (simp add: to_dict_fields batch_size_def glob_pattern_def glob_pattern_base_path_def)
  have 2: "to_dict (construct C b' g' p' a) = to_dict (construct C' b' g' p' a')"
    by (rule construct_same_to_dict) simp_all
  show ?thesis
    using 1 2 dunder_eq_same_dict[OF 1] dunder_eq_same_dict[OF 2]
    by (simp add: to_str_def dunder_ne_def py_ne_def py_eq_refl del: py_eq_PDict)
qed

theorem configuration_not_observable_witness:
  "f_configuration (construct (0::nat) (Some (PInt 10)) None None (Some (Some 7))) = 7
   \<and> f_configuration (construct (0::nat) (Some (PInt 10)) None None None) = 0
   \<and> dunder_eq (construct (0::nat) (Some (PInt 10)) None None (Some (Some 7)))
        (PObj (construct 0 (Some (PInt 10)) None None None))
   \<and> to_dict (construct (0::nat) (Some (PInt 10)) None None (Some (Some 7))) =
        to_dict (construct 0 (Some (PInt 10)) None None None)"
  using configuration_not_observable[where C = "0::nat" and C' = 0 and b' = "Some (PInt 10)"
      and g' = None and p' = None and a = "Some (Some 7)" and a' = None
      and c = 0 and c' = 0 and b = PNone and g = PNone and p = PNone and d = PNone
      and d' = PNone and pformat = "\<lambda>v. []"]
  by (simp add: construct_def dunder_init_def batch_size_setter_def)

end
